theory Spec2Isabelle
  imports Main
begin

section \<open>The task store (app/db.py)\<close>

text \<open>
  The table \<^verbatim>\<open>tasks\<close> has the columns \<^verbatim>\<open>task_id\<close> (primary key), \<^verbatim>\<open>status\<close>,
  \<^verbatim>\<open>result\<close>, \<^verbatim>\<open>error_message\<close>, \<^verbatim>\<open>created_at\<close> and \<^verbatim>\<open>completed_at\<close>; there is no
  other column. A row is a record, the table the list of its rows, a nullable column an
  option. A \<^verbatim>\<open>datetime\<close> is an abstract instant; \<^verbatim>\<open>datetime.utcnow()\<close> is the argument
  \<open>now\<close> of the function that reads the clock. Every function runs in one transaction
  (\<^verbatim>\<open>with engine.begin()\<close>), so it either makes its whole change or none.
\<close>

type_synonym datetime = nat

record task_row =
  task_id :: string
  status :: string
  result :: "int option"
  error_message :: "string option"
  created_at :: "datetime option"
  completed_at :: "datetime option"

type_synonym tasks_table = "task_row list"

datatype error = IntegrityError | HTTPException nat string

text \<open>
  \<^verbatim>\<open>create_task\<close>: an \<^verbatim>\<open>INSERT\<close> of \<^verbatim>\<open>task_id\<close>, \<^verbatim>\<open>status="pending"\<close> and
  \<^verbatim>\<open>created_at\<close>; the columns it does not name are NULL. The primary key refuses a
  second row with the same \<^verbatim>\<open>task_id\<close>: the insert raises and the table is as before.
\<close>

definition create_task :: "string \<Rightarrow> datetime \<Rightarrow> tasks_table \<Rightarrow> error + tasks_table" where
  "create_task tid now tbl =
     (if tid \<in> set (map task_id tbl) then Inl IntegrityError
      else Inr (tbl @ [\<lparr>task_id = tid, status = ''pending'', result = None,
                        error_message = None, created_at = Some now,
                        completed_at = None\<rparr>]))"

text \<open>
  \<^verbatim>\<open>save_result\<close>: an \<^verbatim>\<open>UPDATE ... WHERE task_id = :task_id\<close> setting \<^verbatim>\<open>result\<close>,
  \<^verbatim>\<open>status="completed"\<close> and \<^verbatim>\<open>completed_at\<close>. The only condition is on the key.
\<close>

definition save_result :: "string \<Rightarrow> int \<Rightarrow> datetime \<Rightarrow> tasks_table \<Rightarrow> tasks_table" where
  "save_result tid res now tbl =
     map (\<lambda>r. if task_id r = tid
              then r\<lparr>result := Some res, status := ''completed'', completed_at := Some now\<rparr>
              else r) tbl"

text \<open>
  \<^verbatim>\<open>mark_task_failed\<close>: an \<^verbatim>\<open>UPDATE ... WHERE task_id = :task_id\<close> setting
  \<^verbatim>\<open>status="failed"\<close>, \<^verbatim>\<open>error_message\<close> and \<^verbatim>\<open>completed_at\<close>.
\<close>

definition mark_task_failed :: "string \<Rightarrow> string \<Rightarrow> datetime \<Rightarrow> tasks_table \<Rightarrow> tasks_table" where
  "mark_task_failed tid msg now tbl =
     map (\<lambda>r. if task_id r = tid
              then r\<lparr>status := ''failed'', error_message := Some msg, completed_at := Some now\<rparr>
              else r) tbl"

text \<open>
  \<^verbatim>\<open>get_task\<close>: the first row with the key (\<^verbatim>\<open>fetchone\<close>) as a dict of its columns,
  or \<^verbatim>\<open>None\<close> when no row has it.
\<close>

definition get_task :: "string \<Rightarrow> tasks_table \<Rightarrow> task_row option" where
  "get_task tid tbl = find (\<lambda>r. task_id r = tid) tbl"

text \<open>
  Sequences of store operations, for the properties that hold "after any sequence of
  create/complete/fail". A \<^verbatim>\<open>create_task\<close> that raises leaves the table as it was.
\<close>

datatype store_op =
    Create string datetime
  | Complete string int datetime
  | Fail string string datetime

fun apply_op :: "store_op \<Rightarrow> tasks_table \<Rightarrow> tasks_table" where
  "apply_op (Create tid now) tbl =
     (case create_task tid now tbl of Inl e \<Rightarrow> tbl | Inr tbl' \<Rightarrow> tbl')"
| "apply_op (Complete tid res now) tbl = save_result tid res now tbl"
| "apply_op (Fail tid msg now) tbl = mark_task_failed tid msg now tbl"

fun run_ops :: "store_op list \<Rightarrow> tasks_table \<Rightarrow> tasks_table" where
  "run_ops [] tbl = tbl"
| "run_ops (x # xs) tbl = run_ops xs (apply_op x tbl)"

text \<open>The terminal statuses of the specification: completed and failed.\<close>

definition terminal :: "string \<Rightarrow> bool" where
  "terminal st = (st = ''completed'' \<or> st = ''failed'')"

text \<open>
  What every row written by the three operations satisfies: it is pending with nothing
  else set, or completed with a result and a completion time, or failed with an error
  message and a completion time.
\<close>

definition row_ok :: "task_row \<Rightarrow> bool" where
  "row_ok r =
     (if status r = ''pending''
      then result r = None \<and> error_message r = None \<and> completed_at r = None
      else if status r = ''completed''
      then result r \<noteq> None \<and> completed_at r \<noteq> None
      else status r = ''failed'' \<and> error_message r \<noteq> None \<and> completed_at r \<noteq> None)"

section \<open>The queue and the worker (app/tasks.py)\<close>

text \<open>
  The request body's \<^verbatim>\<open>data\<close> is an optional JSON object; the worker only tests it
  for truth and takes \<^verbatim>\<open>hash(str(data))\<close>.
\<close>

datatype json =
    JNull
  | JBool bool
  | JInt int
  | JStr string
  | JList "json list"
  | JDict "(string \<times> json) list"

type_synonym py_dict = "(string \<times> json) list"

text \<open>
  A message on the broker: the arguments of \<^verbatim>\<open>heavy_computation_task\<close>, the number of
  retries so far (\<^verbatim>\<open>self.request.retries\<close>) and the delay before delivery.
\<close>

datatype message =
  Message (msg_task_id: string) (msg_data: "py_dict option") (msg_retries: nat) (msg_countdown: nat)

text \<open>
  The state the program acts on: the table, the broker's queue, and the result
  backend's log of \<^verbatim>\<open>update_state\<close> calls (state name and iteration; the percentage of
  the source is a float computed from the iteration).
\<close>

record system =
  tasks :: tasks_table
  queue :: "message list"
  backend :: "(string \<times> nat) list"

text \<open>
  What one run of the task reads from outside: the request's retry count, the number of
  loop iterations \<^verbatim>\<open>int(random.uniform(5, 10))\<close>, the exception raised inside the
  \<^verbatim>\<open>try\<close> block if any (after how many iterations of the loop, and \<^verbatim>\<open>str(exc)\<close>), the
  clock, and Python's \<^verbatim>\<open>str\<close> and \<^verbatim>\<open>hash\<close>. The only table write of the \<^verbatim>\<open>try\<close> block is
  \<^verbatim>\<open>save_result\<close>, its last statement before \<^verbatim>\<open>return\<close>, and it is one transaction: an
  exception anywhere in the block leaves the table as the block found it.
\<close>

record run_env =
  request_retries :: nat
  computation_secs :: nat
  raised :: "(nat \<times> string) option"
  utcnow :: datetime
  py_str :: "py_dict \<Rightarrow> string"
  py_hash :: "string \<Rightarrow> int"

text \<open>
  The loop \<^verbatim>\<open>for i in range(int(computation_time))\<close>: each iteration sleeps and calls
  \<^verbatim>\<open>self.update_state(state='PROGRESS', ...)\<close>, which writes to the result backend.
\<close>

fun progress_loop :: "nat \<Rightarrow> system \<Rightarrow> system" where
  "progress_loop 0 s = s"
| "progress_loop (Suc i) s =
     (let s' = progress_loop i s in s'\<lparr>backend := backend s' @ [(''PROGRESS'', Suc i)]\<rparr>)"

text \<open>\<^verbatim>\<open>sum(range(n))\<close>.\<close>

fun sum_range :: "nat \<Rightarrow> int" where
  "sum_range 0 = 0"
| "sum_range (Suc n) = sum_range n + int n"

text \<open>
  Lines 25 to 28: \<^verbatim>\<open>result = sum(range(1000000))\<close>, and
  \<^verbatim>\<open>if data: result += hash(str(data)) % 1000\<close>. \<^verbatim>\<open>None\<close> and the empty dict are false.
  Python's \<^verbatim>\<open>%\<close> takes the sign of the divisor, as \<open>mod\<close> on \<open>int\<close> does.
\<close>

definition compute_result :: "run_env \<Rightarrow> py_dict option \<Rightarrow> int" where
  "compute_result env d =
     (let result = sum_range 1000000 in
      case d of
        None \<Rightarrow> result
      | Some kv \<Rightarrow> if kv = [] then result else result + py_hash env (py_str env kv) mod 1000)"

text \<open>How a run of the task ends: the returned dict, Celery's \<^verbatim>\<open>Retry\<close>, or the exception.\<close>

datatype task_outcome =
    Returned string int string string
  | RetryRaised string nat
  | ExcRaised string

text \<open>
  Celery's \<^verbatim>\<open>Task.retry(exc=, countdown=, max_retries=)\<close>, the library call of line 46:
  with \<^verbatim>\<open>retries = request.retries + 1\<close>, it raises \<^verbatim>\<open>exc\<close> when
  \<^verbatim>\<open>retries > max_retries\<close>, and otherwise sends the task again with that retry count
  and the countdown, and raises \<^verbatim>\<open>Retry\<close>.
\<close>

definition retry ::
  "nat \<Rightarrow> string \<Rightarrow> py_dict option \<Rightarrow> string \<Rightarrow> nat \<Rightarrow> nat \<Rightarrow> system \<Rightarrow> task_outcome \<times> system" where
  "retry req_retries tid d exc countdown max_retries s =
     (let retries = req_retries + 1 in
      if retries > max_retries then (ExcRaised exc, s)
      else (RetryRaised exc countdown,
            s\<lparr>queue := queue s @ [Message tid d retries countdown]\<rparr>))"

text \<open>
  \<^verbatim>\<open>heavy_computation_task\<close>. Without an exception: the loop, the result,
  \<^verbatim>\<open>save_result\<close>, the returned dict. With one: the handler calls \<^verbatim>\<open>mark_task_failed\<close>
  with \<^verbatim>\<open>str(exc)\<close> and then raises \<^verbatim>\<open>self.retry(exc=exc, countdown=60, max_retries=3)\<close>.
\<close>

definition heavy_computation_task ::
  "run_env \<Rightarrow> string \<Rightarrow> py_dict option \<Rightarrow> system \<Rightarrow> task_outcome \<times> system" where
  "heavy_computation_task env tid d s =
     (case raised env of
        None \<Rightarrow>
          (let s1 = progress_loop (computation_secs env) s;
               res = compute_result env d;
               s2 = s1\<lparr>tasks := save_result tid res (utcnow env) (tasks s1)\<rparr>
           in (Returned tid res ''completed'' ''Task completed successfully'', s2))
      | Some (k, msg) \<Rightarrow>
          (let s1 = progress_loop (min k (computation_secs env)) s;
               s2 = s1\<lparr>tasks := mark_task_failed tid msg (utcnow env) (tasks s1)\<rparr>
           in retry (request_retries env) tid d msg 60 3 s2))"

text \<open>
  The same function call by call, to speak of the states a run passes through. These are
  the calls of \<^verbatim>\<open>heavy_computation_task\<close> that act on the table, the queue or the
  result backend, in the order the source makes them. The statements between them
  (drawing the random number, computing \<^verbatim>\<open>result\<close>, building the returned dict) act on
  none of the three.
\<close>

datatype call =
    Sleep
  | UpdateState nat
  | SaveResult string int datetime
  | MarkTaskFailed string string datetime
  | SelfRetry nat string "py_dict option" string nat nat

text \<open>
  What each call does: \<^verbatim>\<open>time.sleep(1)\<close> nothing, \<^verbatim>\<open>self.update_state\<close> a write to
  the result backend, \<^verbatim>\<open>save_result\<close> and \<^verbatim>\<open>mark_task_failed\<close> their update of the
  table, \<^verbatim>\<open>self.retry\<close> what \<open>retry\<close> does to the queue.
\<close>

fun exec_call :: "call \<Rightarrow> system \<Rightarrow> system" where
  "exec_call Sleep s = s"
| "exec_call (UpdateState i) s = s\<lparr>backend := backend s @ [(''PROGRESS'', i)]\<rparr>"
| "exec_call (SaveResult tid res now) s = s\<lparr>tasks := save_result tid res now (tasks s)\<rparr>"
| "exec_call (MarkTaskFailed tid msg now) s = s\<lparr>tasks := mark_task_failed tid msg now (tasks s)\<rparr>"
| "exec_call (SelfRetry req_retries tid d exc countdown max_retries) s =
     snd (retry req_retries tid d exc countdown max_retries s)"

text \<open>Lines 18 to 21: the calls of the first \<open>n\<close> iterations of the loop.\<close>

fun loop_calls :: "nat \<Rightarrow> call list" where
  "loop_calls 0 = []"
| "loop_calls (Suc i) = loop_calls i @ [Sleep, UpdateState (Suc i)]"

text \<open>
  The calls of the workload, from the entry of the task to the end of its loop: all the
  iterations, or those completed when the exception is raised.
\<close>

definition workload_calls :: "run_env \<Rightarrow> call list" where
  "workload_calls env =
     (case raised env of
        None \<Rightarrow> loop_calls (computation_secs env)
      | Some (k, msg) \<Rightarrow> loop_calls (min k (computation_secs env)))"

text \<open>
  The calls after the workload: line 31 when nothing was raised, lines 43 and 46 of the
  handler otherwise.
\<close>

definition final_calls :: "run_env \<Rightarrow> string \<Rightarrow> py_dict option \<Rightarrow> call list" where
  "final_calls env tid d =
     (case raised env of
        None \<Rightarrow> [SaveResult tid (compute_result env d) (utcnow env)]
      | Some (k, msg) \<Rightarrow>
          [MarkTaskFailed tid msg (utcnow env), SelfRetry (request_retries env) tid d msg 60 3])"

definition task_calls :: "run_env \<Rightarrow> string \<Rightarrow> py_dict option \<Rightarrow> call list" where
  "task_calls env tid d = workload_calls env @ final_calls env tid d"

text \<open>
  The states a sequence of calls passes through: the state it starts in, then the state
  after each call. A Query that arrives during the run reads the table of one of them.
\<close>

fun states_of :: "call list \<Rightarrow> system \<Rightarrow> system list" where
  "states_of [] s = [s]"
| "states_of (c # cs) s = s # states_of cs (exec_call c s)"

section \<open>The HTTP endpoints (app/main.py)\<close>

datatype TaskData = TaskData (data: "py_dict option")

datatype TaskResponse =
  TaskResponse (resp_task_id: string) (resp_status: string) (resp_message: string)

text \<open>
  The text \<^verbatim>\<open>d.isoformat()\<close> of an instant \<open>d\<close> is kept symbolic: \<open>Isoformat d\<close>.
\<close>

datatype iso_string = Isoformat datetime

datatype TaskStatusResponse =
  TaskStatusResponse
    (sr_task_id: string) (sr_status: string) (sr_result: "int option")
    (sr_error_message: "string option") (sr_created_at: "iso_string option")
    (sr_completed_at: "iso_string option")

text \<open>\<^verbatim>\<open>heavy_computation_task.delay(task_id, data)\<close>: a first delivery, with no delay.\<close>

definition delay :: "string \<Rightarrow> py_dict option \<Rightarrow> message list \<Rightarrow> message list" where
  "delay tid d q = q @ [Message tid d 0 0]"

text \<open>
  \<^verbatim>\<open>process_task\<close>: \<open>uuid\<close> is \<^verbatim>\<open>str(uuid.uuid4())\<close>. An exception of \<^verbatim>\<open>create_task\<close>
  is not caught: no response is built and nothing is queued.
\<close>

definition process_task ::
  "string \<Rightarrow> datetime \<Rightarrow> TaskData \<Rightarrow> system \<Rightarrow> error + (TaskResponse \<times> system)" where
  "process_task uuid now task_data s =
     (let tid = uuid in
      case create_task tid now (tasks s) of
        Inl e \<Rightarrow> Inl e
      | Inr tbl \<Rightarrow>
          Inr (TaskResponse tid ''pending'' ''Task queued for processing'',
               s\<lparr>tasks := tbl, queue := delay tid (data task_data) (queue s)\<rparr>))"

text \<open>
  \<^verbatim>\<open>get_task_status\<close>: a missing record raises the 404. A \<^verbatim>\<open>datetime\<close> is always
  true in Python, so the two conditionals test for NULL.
\<close>

definition get_task_status :: "string \<Rightarrow> tasks_table \<Rightarrow> error + TaskStatusResponse" where
  "get_task_status tid tbl =
     (case get_task tid tbl of
        None \<Rightarrow> Inl (HTTPException 404 ''Task not found'')
      | Some task \<Rightarrow>
          Inr (TaskStatusResponse (task_id task) (status task) (result task)
                 (error_message task)
                 (case created_at task of None \<Rightarrow> None | Some t \<Rightarrow> Some (Isoformat t))
                 (case completed_at task of None \<Rightarrow> None | Some t \<Rightarrow> Some (Isoformat t))))"

section \<open>Facts about the store operations\<close>

lemma get_task_save_result_same:
  "get_task tid tbl = Some r \<Longrightarrow>
   get_task tid (save_result tid res now tbl) =
     Some (r\<lparr>result := Some res, status := ''completed'', completed_at := Some now\<rparr>)"
  unfolding get_task_def save_result_def
  by (induction tbl) (auto split: if_splits)

lemma get_task_mark_failed_same:
  "get_task tid tbl = Some r \<Longrightarrow>
   get_task tid (mark_task_failed tid msg now tbl) =
     Some (r\<lparr>status := ''failed'', error_message := Some msg, completed_at := Some now\<rparr>)"
  unfolding get_task_def mark_task_failed_def
  by (induction tbl) (auto split: if_splits)

lemma get_task_save_result_other:
  "tid' \<noteq> tid \<Longrightarrow> get_task tid' (save_result tid res now tbl) = get_task tid' tbl"
  unfolding get_task_def save_result_def
  by (induction tbl) auto

lemma get_task_mark_failed_other:
  "tid' \<noteq> tid \<Longrightarrow> get_task tid' (mark_task_failed tid msg now tbl) = get_task tid' tbl"
  unfolding get_task_def mark_task_failed_def
  by (induction tbl) auto

lemma get_task_None_iff: "get_task tid tbl = None \<longleftrightarrow> tid \<notin> set (map task_id tbl)"
  unfolding get_task_def
  by (induction tbl) auto

lemma get_task_in_set: "get_task tid tbl = Some r \<Longrightarrow> r \<in> set tbl \<and> task_id r = tid"
  unfolding get_task_def
  by (induction tbl) (auto split: if_splits)

lemma get_task_append_fresh:
  "get_task tid tbl = None \<Longrightarrow>
   get_task tid (tbl @ [r]) = (if task_id r = tid then Some r else None)"
  unfolding get_task_def
  by (induction tbl) (auto split: if_splits)

text \<open>Under the primary key, the first row with an id is the only one.\<close>

lemma get_task_distinct:
  "distinct (map task_id tbl) \<Longrightarrow> r \<in> set tbl \<Longrightarrow> get_task (task_id r) tbl = Some r"
  unfolding get_task_def
  by (induction tbl) auto

lemma save_result_absent:
  "get_task tid tbl = None \<Longrightarrow> save_result tid res now tbl = tbl"
  unfolding get_task_def save_result_def
  by (induction tbl) (auto split: if_splits)

lemma mark_task_failed_absent:
  "get_task tid tbl = None \<Longrightarrow> mark_task_failed tid msg now tbl = tbl"
  unfolding get_task_def mark_task_failed_def
  by (induction tbl) (auto split: if_splits)

lemma map_task_id_save_result: "map task_id (save_result tid res now tbl) = map task_id tbl"
  unfolding save_result_def by (induction tbl) auto

lemma map_task_id_mark_failed: "map task_id (mark_task_failed tid msg now tbl) = map task_id tbl"
  unfolding mark_task_failed_def by (induction tbl) auto

text \<open>The operations keep the primary key: no id is ever stored twice.\<close>

lemma distinct_apply_op:
  "distinct (map task_id tbl) \<Longrightarrow> distinct (map task_id (apply_op x tbl))"
  by (cases x) (auto simp: create_task_def map_task_id_save_result map_task_id_mark_failed)

lemma distinct_run_ops:
  "distinct (map task_id tbl) \<Longrightarrow> distinct (map task_id (run_ops ops tbl))"
  by (induction ops arbitrary: tbl) (auto simp: distinct_apply_op)

text \<open>Every operation keeps \<open>row_ok\<close> on every row, so every reachable row has it.\<close>

lemma row_ok_apply_op: "list_all row_ok tbl \<Longrightarrow> list_all row_ok (apply_op x tbl)"
  by (cases x)
     (auto simp: create_task_def save_result_def mark_task_failed_def row_ok_def
                 list_all_iff)

lemma row_ok_run_ops: "list_all row_ok tbl \<Longrightarrow> list_all row_ok (run_ops ops tbl)"
  by (induction ops arbitrary: tbl) (auto simp: row_ok_apply_op)

lemma row_ok_reachable: "get_task tid (run_ops ops []) = Some r \<Longrightarrow> row_ok r"
  using row_ok_run_ops [of "[]" ops] get_task_in_set [of tid "run_ops ops []" r]
  by (auto simp: list_all_iff)

lemma row_ok_cases:
  "row_ok r \<Longrightarrow>
     (status r = ''pending'' \<and> result r = None \<and> error_message r = None \<and> completed_at r = None)
   \<or> (status r = ''completed'' \<and> result r \<noteq> None \<and> completed_at r \<noteq> None)
   \<or> (status r = ''failed'' \<and> error_message r \<noteq> None \<and> completed_at r \<noteq> None)"
  unfolding row_ok_def by presburger

lemma row_ok_completed_at: "row_ok r \<Longrightarrow> (completed_at r \<noteq> None) = terminal (status r)"
  by (auto simp: row_ok_def terminal_def split: if_splits)

section \<open>Facts about the worker and the endpoints\<close>

lemma tasks_progress_loop: "tasks (progress_loop n s) = tasks s"
  by (induction n) (auto simp: Let_def)

lemma queue_progress_loop: "queue (progress_loop n s) = queue s"
  by (induction n) (auto simp: Let_def)

text \<open>The whole effect of a run on the table is one terminal update.\<close>

lemma tasks_heavy_computation_task:
  "tasks (snd (heavy_computation_task env tid d s)) =
     (case raised env of
        None \<Rightarrow> save_result tid (compute_result env d) (utcnow env) (tasks s)
      | Some (k, msg) \<Rightarrow> mark_task_failed tid msg (utcnow env) (tasks s))"
  by (auto simp: heavy_computation_task_def retry_def Let_def tasks_progress_loop
           split: option.splits)

text \<open>
  The call-by-call run: the states it passes through, and that it ends in the state
  \<^verbatim>\<open>heavy_computation_task\<close> returns.
\<close>

lemma butlast_replicate_Suc: "butlast (replicate (Suc n) x) = replicate n x"
  by (induction n) auto

lemma states_of_nonempty: "states_of cs s \<noteq> []"
  by (cases cs) auto

lemma length_states_of: "length (states_of cs s) = Suc (length cs)"
  by (induction cs arbitrary: s) auto

lemma hd_states_of: "hd (states_of cs s) = s"
  by (cases cs) auto

lemma states_of_append:
  "states_of (xs @ ys) s = butlast (states_of xs s) @ states_of ys (last (states_of xs s))"
  by (induction xs arbitrary: s) (auto simp: states_of_nonempty)

lemma last_states_of_append:
  "last (states_of (xs @ ys) s) = last (states_of ys (last (states_of xs s)))"
  by (simp add: states_of_append states_of_nonempty)

lemma loop_calls_keep_table:
  "c \<in> set (loop_calls n) \<Longrightarrow> tasks (exec_call c s) = tasks s"
  by (induction n) auto

lemma tasks_states_of_keep:
  "(\<And>c s'. c \<in> set cs \<Longrightarrow> tasks (exec_call c s') = tasks s') \<Longrightarrow>
   map tasks (states_of cs s) = replicate (Suc (length cs)) (tasks s)"
  by (induction cs arbitrary: s) auto

lemma tasks_states_of_loop:
  "map tasks (states_of (loop_calls n) s) = replicate (Suc (length (loop_calls n))) (tasks s)"
  by (rule tasks_states_of_keep) (rule loop_calls_keep_table)

lemma length_loop_calls: "length (loop_calls n) = 2 * n"
  by (induction n) auto

lemma last_states_of_loop: "last (states_of (loop_calls n) s) = progress_loop n s"
  by (induction n) (auto simp: last_states_of_append Let_def)

lemma tasks_states_of_workload:
  "map tasks (states_of (workload_calls env) s) =
     replicate (Suc (length (workload_calls env))) (tasks s)"
  by (simp add: workload_calls_def tasks_states_of_loop split: option.splits prod.splits)

lemma tasks_last_workload: "tasks (last (states_of (workload_calls env) s)) = tasks s"
  by (simp add: workload_calls_def last_states_of_loop tasks_progress_loop
        split: option.splits prod.splits)

lemma tasks_states_of_final:
  "map tasks (states_of (final_calls env tid d) s1) =
     tasks s1 # replicate (length (final_calls env tid d))
       (apply_op (case raised env of
                    None \<Rightarrow> Complete tid (compute_result env d) (utcnow env)
                  | Some (k, msg) \<Rightarrow> Fail tid msg (utcnow env)) (tasks s1))"
  by (auto simp: final_calls_def retry_def Let_def split: option.splits)

lemma last_states_of_task_calls:
  "last (states_of (task_calls env tid d) s) = snd (heavy_computation_task env tid d s)"
  by (auto simp: task_calls_def workload_calls_def final_calls_def last_states_of_append
        last_states_of_loop heavy_computation_task_def Let_def split: option.splits)

lemma tasks_states_of_task_calls:
  "map tasks (states_of (task_calls env tid d) s) =
     replicate (Suc (length (workload_calls env))) (tasks s)
     @ replicate (length (final_calls env tid d))
         (apply_op (case raised env of
                      None \<Rightarrow> Complete tid (compute_result env d) (utcnow env)
                    | Some (k, msg) \<Rightarrow> Fail tid msg (utcnow env)) (tasks s))"
proof -
  let ?w = "workload_calls env"
  have "map tasks (states_of (task_calls env tid d) s) =
          butlast (map tasks (states_of ?w s))
          @ map tasks (states_of (final_calls env tid d) (last (states_of ?w s)))"
    by (simp add: task_calls_def states_of_append map_butlast)
  also have "butlast (map tasks (states_of ?w s)) = replicate (length ?w) (tasks s)"
    by (simp only: tasks_states_of_workload butlast_replicate_Suc)
  finally show ?thesis
    by (simp add: tasks_states_of_final tasks_last_workload replicate_append_same)
qed

text \<open>Gauss's sum, so that \<^verbatim>\<open>sum(range(1000000))\<close> need not be unfolded.\<close>

lemma sum_range_closed: "2 * sum_range n = int n * (int n - 1)"
  by (induction n) (auto simp: algebra_simps)

lemma sum_range_million: "sum_range 1000000 = 499999500000"
  using sum_range_closed [of 1000000] by simp

lemma compute_result_falsy:
  "d = None \<or> d = Some [] \<Longrightarrow> compute_result env d = 499999500000"
  by (auto simp: compute_result_def sum_range_million)

lemma compute_result_truthy:
  "kv \<noteq> [] \<Longrightarrow>
   compute_result env (Some kv) = 499999500000 + py_hash env (py_str env kv) mod 1000"
  by (simp add: compute_result_def sum_range_million)

text \<open>
  A \<^verbatim>\<open>uuid4\<close> that is already a key: the insert raises, \<^verbatim>\<open>process_task\<close> returns no
  response.
\<close>

lemma process_task_collision:
  "get_task uuid (tasks s) \<noteq> None \<Longrightarrow> process_task uuid now td s = Inl IntegrityError"
  by (simp add: process_task_def create_task_def get_task_None_iff Let_def)

section \<open>Terminal writes\<close>

text \<open>
  C1, as the spec states it, fails. The two updates have no condition on the status, so
  a record that is completed is overwritten by a later \<^verbatim>\<open>mark_task_failed\<close>, and a
  record that is failed by a later \<^verbatim>\<open>save_result\<close>: status and completion time change,
  and the error message or the result is written.
\<close>

theorem terminal_record_overwritten_counterexample:
  "terminal (status \<lparr>task_id = ''t1'', status = ''completed'', result = Some 7,
                     error_message = None, created_at = Some 1, completed_at = Some 10\<rparr>)
   \<and> mark_task_failed ''t1'' ''boom'' 20
       [\<lparr>task_id = ''t1'', status = ''completed'', result = Some 7,
         error_message = None, created_at = Some 1, completed_at = Some 10\<rparr>]
     = [\<lparr>task_id = ''t1'', status = ''failed'', result = Some 7,
         error_message = Some ''boom'', created_at = Some 1, completed_at = Some 20\<rparr>]
   \<and> save_result ''t1'' 9 30
       [\<lparr>task_id = ''t1'', status = ''failed'', result = None,
         error_message = Some ''boom'', created_at = Some 1, completed_at = Some 10\<rparr>]
     = [\<lparr>task_id = ''t1'', status = ''completed'', result = Some 9,
         error_message = Some ''boom'', created_at = Some 1, completed_at = Some 30\<rparr>]"
  by (simp add: terminal_def mark_task_failed_def save_result_def)

text \<open>
  C1, amended. For a task id with a record, whatever its status and in particular when
  it is already terminal, \<^verbatim>\<open>save_result\<close> overwrites result, status and completion
  time, and \<^verbatim>\<open>mark_task_failed\<close> overwrites status, error message and completion time:
  the last terminal write is the one that persists. The columns an update does not name
  keep their values, and the records of all other ids are unchanged.
\<close>

theorem terminal_write_last_writer_wins:
  assumes "get_task tid tbl = Some r"
  shows "get_task tid (save_result tid res now tbl) =
           Some (r\<lparr>result := Some res, status := ''completed'', completed_at := Some now\<rparr>)
       \<and> get_task tid (mark_task_failed tid msg now tbl) =
           Some (r\<lparr>status := ''failed'', error_message := Some msg, completed_at := Some now\<rparr>)
       \<and> (\<forall>tid'. tid' \<noteq> tid \<longrightarrow>
            get_task tid' (save_result tid res now tbl) = get_task tid' tbl
          \<and> get_task tid' (mark_task_failed tid msg now tbl) = get_task tid' tbl)"
proof -
  have sv: "get_task tid (save_result tid res now tbl) =
           Some (r\<lparr>result := Some res, status := ''completed'', completed_at := Some now\<rparr>)"
    using assms by (rule get_task_save_result_same)
  have mk: "get_task tid (mark_task_failed tid msg now tbl) =
           Some (r\<lparr>status := ''failed'', error_message := Some msg, completed_at := Some now\<rparr>)"
    using assms by (rule get_task_mark_failed_same)
  have others: "\<forall>tid'. tid' \<noteq> tid \<longrightarrow>
            get_task tid' (save_result tid res now tbl) = get_task tid' tbl
          \<and> get_task tid' (mark_task_failed tid msg now tbl) = get_task tid' tbl"
    by (simp add: get_task_save_result_other get_task_mark_failed_other)
  from sv mk others show ?thesis by blast
qed

theorem terminal_write_last_writer_wins_witness:
  "get_task ''t1''
     (save_result ''t1'' 9 30
        [\<lparr>task_id = ''t1'', status = ''failed'', result = None,
          error_message = Some ''boom'', created_at = Some 1, completed_at = Some 10\<rparr>,
         \<lparr>task_id = ''t2'', status = ''pending'', result = None,
          error_message = None, created_at = Some 2, completed_at = None\<rparr>])
     = Some \<lparr>task_id = ''t1'', status = ''completed'', result = Some 9,
             error_message = Some ''boom'', created_at = Some 1, completed_at = Some 30\<rparr>
   \<and> get_task ''t2''
       (save_result ''t1'' 9 30
          [\<lparr>task_id = ''t1'', status = ''failed'', result = None,
            error_message = Some ''boom'', created_at = Some 1, completed_at = Some 10\<rparr>,
           \<lparr>task_id = ''t2'', status = ''pending'', result = None,
            error_message = None, created_at = Some 2, completed_at = None\<rparr>])
     = Some \<lparr>task_id = ''t2'', status = ''pending'', result = None,
             error_message = None, created_at = Some 2, completed_at = None\<rparr>
   \<and> get_task ''t1''
       (mark_task_failed ''t1'' ''late'' 30
          [\<lparr>task_id = ''t1'', status = ''failed'', result = None,
            error_message = Some ''boom'', created_at = Some 1, completed_at = Some 10\<rparr>,
           \<lparr>task_id = ''t2'', status = ''pending'', result = None,
            error_message = None, created_at = Some 2, completed_at = None\<rparr>])
     = Some \<lparr>task_id = ''t1'', status = ''failed'', result = None,
             error_message = Some ''late'', created_at = Some 1, completed_at = Some 30\<rparr>"
proof -
  let ?r = "\<lparr>task_id = ''t1'', status = ''failed'', result = None,
             error_message = Some ''boom'', created_at = Some 1, completed_at = Some 10\<rparr>"
  let ?r2 = "\<lparr>task_id = ''t2'', status = ''pending'', result = None,
              error_message = None, created_at = Some 2, completed_at = None\<rparr>"
  have h: "get_task ''t1'' [?r, ?r2] = Some ?r"
    by (simp add: get_task_def)
  have g: "get_task ''t2'' [?r, ?r2] = Some ?r2"
    by (simp add: get_task_def)
  have ne: "''t2'' \<noteq> ''t1''" by simp
  from terminal_write_last_writer_wins [OF h, of 9 30 "''late''"] ne g
  show ?thesis by simp
qed

text \<open>
  C3, as the spec states it, fails in its second half. A record that failed at instant
  10 and is completed at instant 70 by a later run (the retry) has its completion time
  rewritten: the Query after the first terminal write and the Query after the second
  return different \<^verbatim>\<open>completed_at\<close> values.
\<close>

theorem completed_at_rewritten_counterexample:
  "run_ops [Create ''t1'' 1, Fail ''t1'' ''boom'' 10] []
     = [\<lparr>task_id = ''t1'', status = ''failed'', result = None,
         error_message = Some ''boom'', created_at = Some 1, completed_at = Some 10\<rparr>]
   \<and> get_task_status ''t1'' (run_ops [Create ''t1'' 1, Fail ''t1'' ''boom'' 10] [])
     = Inr (TaskStatusResponse ''t1'' ''failed'' None (Some ''boom'')
              (Some (Isoformat 1)) (Some (Isoformat 10)))
   \<and> get_task_status ''t1''
       (run_ops [Create ''t1'' 1, Fail ''t1'' ''boom'' 10, Complete ''t1'' 7 70] [])
     = Inr (TaskStatusResponse ''t1'' ''completed'' (Some 7) (Some ''boom'')
              (Some (Isoformat 1)) (Some (Isoformat 70)))"
  by (simp add: create_task_def mark_task_failed_def save_result_def
        get_task_status_def get_task_def)

text \<open>
  C3, amended. For every task record reachable from the empty store by create, complete
  and fail operations, \<^verbatim>\<open>completed_at\<close> is non-null if and only if the status is
  terminal (completed or failed); and it is written at every terminal write, not only
  the first: after \<^verbatim>\<open>save_result\<close> or \<^verbatim>\<open>mark_task_failed\<close> on an id with a record,
  \<^verbatim>\<open>completed_at\<close> is the instant of that write. (Query only reads: between two writes
  it returns the same value.)
\<close>

theorem completed_at_is_latest_terminal_write:
  "(\<forall>r. get_task tid (run_ops ops []) = Some r \<longrightarrow>
        (completed_at r \<noteq> None) = terminal (status r))
   \<and> (\<forall>r. get_task tid tbl = Some r \<longrightarrow>
        get_task tid (save_result tid res now tbl) =
          Some (r\<lparr>result := Some res, status := ''completed'', completed_at := Some now\<rparr>)
      \<and> get_task tid (mark_task_failed tid msg now tbl) =
          Some (r\<lparr>status := ''failed'', error_message := Some msg,
                  completed_at := Some now\<rparr>))"
proof -
  have inv: "\<forall>r. get_task tid (run_ops ops []) = Some r \<longrightarrow>
        (completed_at r \<noteq> None) = terminal (status r)"
    using row_ok_reachable row_ok_completed_at by blast
  have wr: "\<forall>r. get_task tid tbl = Some r \<longrightarrow>
        get_task tid (save_result tid res now tbl) =
          Some (r\<lparr>result := Some res, status := ''completed'', completed_at := Some now\<rparr>)
      \<and> get_task tid (mark_task_failed tid msg now tbl) =
          Some (r\<lparr>status := ''failed'', error_message := Some msg,
                  completed_at := Some now\<rparr>)"
    by (simp add: get_task_save_result_same get_task_mark_failed_same)
  from inv wr show ?thesis by blast
qed

theorem completed_at_is_latest_terminal_write_witness:
  "get_task ''t1'' (run_ops [Create ''t1'' 1, Fail ''t1'' ''boom'' 10] [])
     = Some \<lparr>task_id = ''t1'', status = ''failed'', result = None,
             error_message = Some ''boom'', created_at = Some 1, completed_at = Some 10\<rparr>
   \<and> terminal ''failed''
   \<and> get_task ''t1''
       (save_result ''t1'' 7 70
          [\<lparr>task_id = ''t1'', status = ''failed'', result = None,
            error_message = Some ''boom'', created_at = Some 1, completed_at = Some 10\<rparr>])
     = Some \<lparr>task_id = ''t1'', status = ''completed'', result = Some 7,
             error_message = Some ''boom'', created_at = Some 1, completed_at = Some 70\<rparr>"
proof -
  let ?f = "\<lparr>task_id = ''t1'', status = ''failed'', result = None,
             error_message = Some ''boom'', created_at = Some 1, completed_at = Some 10\<rparr>"
  have reach: "get_task ''t1'' (run_ops [Create ''t1'' 1, Fail ''t1'' ''boom'' 10] []) = Some ?f"
    by (simp add: create_task_def mark_task_failed_def get_task_def)
  have h: "get_task ''t1'' [?f] = Some ?f"
    by (simp add: get_task_def)
  from completed_at_is_latest_terminal_write
         [of "''t1''" "[Create ''t1'' 1, Fail ''t1'' ''boom'' 10]" "[?f]" 7 70 "''boom''"]
       reach h
  show ?thesis by simp
qed

text \<open>
  C4, as the spec states it, fails. A record that was marked failed and is then
  completed keeps its error message, and a record that was completed and is then marked
  failed keeps its result: both fields are set in a terminal record.
\<close>

theorem result_and_error_both_set_counterexample:
  "run_ops [Create ''t1'' 1, Fail ''t1'' ''boom'' 10, Complete ''t1'' 7 70] []
     = [\<lparr>task_id = ''t1'', status = ''completed'', result = Some 7,
         error_message = Some ''boom'', created_at = Some 1, completed_at = Some 70\<rparr>]
   \<and> run_ops [Create ''t1'' 1, Complete ''t1'' 7 10, Fail ''t1'' ''boom'' 70] []
     = [\<lparr>task_id = ''t1'', status = ''failed'', result = Some 7,
         error_message = Some ''boom'', created_at = Some 1, completed_at = Some 70\<rparr>]"
  by (simp add: create_task_def mark_task_failed_def save_result_def)

text \<open>
  C4, amended. For every task record, after any sequence of create, complete and fail
  operations from the empty store: the status is pending, completed or failed; neither
  \<^verbatim>\<open>result\<close> nor \<^verbatim>\<open>error_message\<close> is set while the status is pending; \<^verbatim>\<open>result\<close> is
  set when the status is completed and \<^verbatim>\<open>error_message\<close> is set when it is failed.
  (The other field may be set as well, left by an earlier terminal write.)
\<close>

theorem result_error_follow_status:
  assumes "get_task tid (run_ops ops []) = Some r"
  shows "(status r = ''pending'' \<or> status r = ''completed'' \<or> status r = ''failed'')
       \<and> (status r = ''pending'' \<longrightarrow> result r = None \<and> error_message r = None)
       \<and> (status r = ''completed'' \<longrightarrow> result r \<noteq> None)
       \<and> (status r = ''failed'' \<longrightarrow> error_message r \<noteq> None)"
proof -
  have ok: "row_ok r" using assms by (rule row_ok_reachable)
  from row_ok_cases [OF ok] show ?thesis
  proof (elim disjE conjE)
    assume "status r = ''pending''" "result r = None" "error_message r = None"
    then show ?thesis by simp
  next
    assume "status r = ''completed''" "result r \<noteq> None"
    then show ?thesis by simp
  next
    assume "status r = ''failed''" "error_message r \<noteq> None"
    then show ?thesis by simp
  qed
qed

theorem result_error_follow_status_witness:
  "get_task ''t1''
     (run_ops [Create ''t1'' 1, Create ''t2'' 2, Complete ''t1'' 7 10, Create ''t3'' 11,
               Fail ''t3'' ''boom'' 12] [])
     = Some \<lparr>task_id = ''t1'', status = ''completed'', result = Some 7,
             error_message = None, created_at = Some 1, completed_at = Some 10\<rparr>
   \<and> get_task ''t2''
     (run_ops [Create ''t1'' 1, Create ''t2'' 2, Complete ''t1'' 7 10, Create ''t3'' 11,
               Fail ''t3'' ''boom'' 12] [])
     = Some \<lparr>task_id = ''t2'', status = ''pending'', result = None,
             error_message = None, created_at = Some 2, completed_at = None\<rparr>
   \<and> get_task ''t3''
     (run_ops [Create ''t1'' 1, Create ''t2'' 2, Complete ''t1'' 7 10, Create ''t3'' 11,
               Fail ''t3'' ''boom'' 12] [])
     = Some \<lparr>task_id = ''t3'', status = ''failed'', result = None,
             error_message = Some ''boom'', created_at = Some 11, completed_at = Some 12\<rparr>"
proof -
  let ?ops = "[Create ''t1'' 1, Create ''t2'' 2, Complete ''t1'' 7 10, Create ''t3'' 11,
               Fail ''t3'' ''boom'' 12]"
  let ?c = "\<lparr>task_id = ''t1'', status = ''completed'', result = Some 7,
             error_message = None, created_at = Some 1, completed_at = Some 10\<rparr>"
  let ?p = "\<lparr>task_id = ''t2'', status = ''pending'', result = None,
             error_message = None, created_at = Some 2, completed_at = None\<rparr>"
  let ?f = "\<lparr>task_id = ''t3'', status = ''failed'', result = None,
             error_message = Some ''boom'', created_at = Some 11, completed_at = Some 12\<rparr>"
  have a: "get_task ''t1'' (run_ops ?ops []) = Some ?c"
    by (simp add: create_task_def save_result_def mark_task_failed_def get_task_def)
  have b: "get_task ''t2'' (run_ops ?ops []) = Some ?p"
    by (simp add: create_task_def save_result_def mark_task_failed_def get_task_def)
  have c: "get_task ''t3'' (run_ops ?ops []) = Some ?f"
    by (simp add: create_task_def save_result_def mark_task_failed_def get_task_def)
  from result_error_follow_status [OF a] result_error_follow_status [OF b]
       result_error_follow_status [OF c] a b c
  show ?thesis by simp
qed

section \<open>Writes to an id that has no record\<close>

text \<open>
  C10. For a task id with no record in the store, \<^verbatim>\<open>save_result\<close> and
  \<^verbatim>\<open>mark_task_failed\<close> are silent no-ops: the table they leave is the table they found
  (no record is created, every existing record is unchanged), and no error reaches the
  caller: a run of the task that raises nothing returns its dict with status
  \<^verbatim>\<open>completed\<close> although nothing was stored.
\<close>

theorem absent_id_write_is_silent_noop:
  assumes "get_task tid (tasks s) = None"
  shows "save_result tid res now (tasks s) = tasks s
       \<and> mark_task_failed tid msg now (tasks s) = tasks s
       \<and> (raised env = None \<longrightarrow>
            fst (heavy_computation_task env tid d s) =
              Returned tid (compute_result env d) ''completed'' ''Task completed successfully''
          \<and> tasks (snd (heavy_computation_task env tid d s)) = tasks s)"
proof -
  have sv: "save_result tid x t (tasks s) = tasks s" for x t
    using assms by (rule save_result_absent)
  have mk: "mark_task_failed tid msg now (tasks s) = tasks s"
    using assms by (rule mark_task_failed_absent)
  have run: "raised env = None \<Longrightarrow>
      fst (heavy_computation_task env tid d s) =
        Returned tid (compute_result env d) ''completed'' ''Task completed successfully''"
    by (simp add: heavy_computation_task_def Let_def)
  have tbl: "raised env = None \<Longrightarrow> tasks (snd (heavy_computation_task env tid d s)) = tasks s"
    by (simp add: tasks_heavy_computation_task sv)
  from sv mk run tbl show ?thesis by blast
qed

theorem absent_id_write_is_silent_noop_witness:
  "get_task ''t2''
     [\<lparr>task_id = ''t1'', status = ''pending'', result = None, error_message = None,
       created_at = Some 1, completed_at = None\<rparr>] = None
   \<and> save_result ''t2'' 7 5
       [\<lparr>task_id = ''t1'', status = ''pending'', result = None, error_message = None,
         created_at = Some 1, completed_at = None\<rparr>]
     = [\<lparr>task_id = ''t1'', status = ''pending'', result = None, error_message = None,
         created_at = Some 1, completed_at = None\<rparr>]
   \<and> mark_task_failed ''t2'' ''boom'' 5
       [\<lparr>task_id = ''t1'', status = ''pending'', result = None, error_message = None,
         created_at = Some 1, completed_at = None\<rparr>]
     = [\<lparr>task_id = ''t1'', status = ''pending'', result = None, error_message = None,
         created_at = Some 1, completed_at = None\<rparr>]
   \<and> fst (heavy_computation_task
        \<lparr>request_retries = 0, computation_secs = 5, raised = None, utcnow = 9,
          py_str = concat \<circ> map fst, py_hash = int \<circ> length\<rparr>
        ''t2'' None
        \<lparr>tasks = [\<lparr>task_id = ''t1'', status = ''pending'', result = None,
                   error_message = None, created_at = Some 1, completed_at = None\<rparr>],
          queue = [], backend = []\<rparr>)
     = Returned ''t2'' 499999500000 ''completed'' ''Task completed successfully''
   \<and> tasks (snd (heavy_computation_task
        \<lparr>request_retries = 0, computation_secs = 5, raised = None, utcnow = 9,
          py_str = concat \<circ> map fst, py_hash = int \<circ> length\<rparr>
        ''t2'' None
        \<lparr>tasks = [\<lparr>task_id = ''t1'', status = ''pending'', result = None,
                   error_message = None, created_at = Some 1, completed_at = None\<rparr>],
          queue = [], backend = []\<rparr>))
     = [\<lparr>task_id = ''t1'', status = ''pending'', result = None, error_message = None,
         created_at = Some 1, completed_at = None\<rparr>]"
proof -
  let ?s = "\<lparr>tasks = [\<lparr>task_id = ''t1'', status = ''pending'', result = None,
                         error_message = None, created_at = Some 1, completed_at = None\<rparr>],
              queue = [], backend = []\<rparr>"
  let ?env = "\<lparr>request_retries = 0, computation_secs = 5, raised = None, utcnow = 9,
               py_str = concat \<circ> map fst, py_hash = int \<circ> length\<rparr>"
  have h: "get_task ''t2'' (tasks ?s) = None"
    by (simp add: get_task_def)
  have e: "raised ?env = None" by simp
  have c: "compute_result ?env None = 499999500000"
    by (simp add: compute_result_falsy)
  from absent_id_write_is_silent_noop [OF h, of 7 5 "''boom''" ?env None] h e c
  show ?thesis by simp
qed

section \<open>The worker\<close>

text \<open>
  C9. For every run of the task that raises nothing, on an id with a record, the result
  stored is the one computed: it equals the sum of the integers 0 to 999999, exactly
  499999500000, when the payload is absent or empty; a non-empty payload adds to that
  base the hash of its string form modulo 1000, a value from 0 and strictly below 1000.
\<close>

theorem stored_result_of_successful_run:
  assumes "raised env = None" and "get_task tid (tasks s) = Some r"
  shows "get_task tid (tasks (snd (heavy_computation_task env tid d s)))
           = Some (r\<lparr>result := Some (compute_result env d), status := ''completed'',
                     completed_at := Some (utcnow env)\<rparr>)
       \<and> (d = None \<or> d = Some [] \<longrightarrow> compute_result env d = 499999500000)
       \<and> (\<forall>kv. d = Some kv \<and> kv \<noteq> [] \<longrightarrow>
             compute_result env d = 499999500000 + py_hash env (py_str env kv) mod 1000
           \<and> 0 \<le> py_hash env (py_str env kv) mod 1000
           \<and> py_hash env (py_str env kv) mod 1000 < 1000)"
proof -
  have "tasks (snd (heavy_computation_task env tid d s)) =
          save_result tid (compute_result env d) (utcnow env) (tasks s)"
    using assms(1) by (simp add: tasks_heavy_computation_task)
  then have stored: "get_task tid (tasks (snd (heavy_computation_task env tid d s)))
           = Some (r\<lparr>result := Some (compute_result env d), status := ''completed'',
                     completed_at := Some (utcnow env)\<rparr>)"
    using assms(2) by (simp add: get_task_save_result_same)
  have falsy: "d = None \<or> d = Some [] \<longrightarrow> compute_result env d = 499999500000"
    using compute_result_falsy by blast
  have truthy: "\<forall>kv. d = Some kv \<and> kv \<noteq> [] \<longrightarrow>
             compute_result env d = 499999500000 + py_hash env (py_str env kv) mod 1000
           \<and> 0 \<le> py_hash env (py_str env kv) mod 1000
           \<and> py_hash env (py_str env kv) mod 1000 < 1000"
    by (simp add: compute_result_truthy)
  from stored falsy truthy show ?thesis by blast
qed

theorem stored_result_of_successful_run_witness:
  "get_task ''t1''
     (tasks (snd (heavy_computation_task
        \<lparr>request_retries = 0, computation_secs = 5, raised = None, utcnow = 9,
          py_str = concat \<circ> map fst, py_hash = uminus \<circ> int \<circ> length\<rparr>
        ''t1'' None
        \<lparr>tasks = [\<lparr>task_id = ''t1'', status = ''pending'', result = None,
                   error_message = None, created_at = Some 1, completed_at = None\<rparr>],
          queue = [], backend = []\<rparr>)))
     = Some \<lparr>task_id = ''t1'', status = ''completed'', result = Some 499999500000,
             error_message = None, created_at = Some 1, completed_at = Some 9\<rparr>
   \<and> get_task ''t1''
     (tasks (snd (heavy_computation_task
        \<lparr>request_retries = 0, computation_secs = 5, raised = None, utcnow = 9,
          py_str = concat \<circ> map fst, py_hash = uminus \<circ> int \<circ> length\<rparr>
        ''t1'' (Some [(''x'', JInt 1)])
        \<lparr>tasks = [\<lparr>task_id = ''t1'', status = ''pending'', result = None,
                   error_message = None, created_at = Some 1, completed_at = None\<rparr>],
          queue = [], backend = []\<rparr>)))
     = Some \<lparr>task_id = ''t1'', status = ''completed'', result = Some 499999500999,
             error_message = None, created_at = Some 1, completed_at = Some 9\<rparr>"
proof -
  let ?env = "\<lparr>request_retries = 0, computation_secs = 5, raised = None, utcnow = 9,
             py_str = concat \<circ> map fst, py_hash = uminus \<circ> int \<circ> length\<rparr>"
  let ?s = "\<lparr>tasks = [\<lparr>task_id = ''t1'', status = ''pending'', result = None,
                      error_message = None, created_at = Some 1, completed_at = None\<rparr>],
             queue = [], backend = []\<rparr>"
  have e: "raised ?env = None" by simp
  have h: "get_task ''t1'' (tasks ?s) =
     Some \<lparr>task_id = ''t1'', status = ''pending'', result = None,
                      error_message = None, created_at = Some 1, completed_at = None\<rparr>"
    by (simp add: get_task_def)
  from stored_result_of_successful_run [OF e h, of None]
       stored_result_of_successful_run [OF e h, of "Some [(''x'', JInt 1)]"]
  show ?thesis by simp
qed

text \<open>
  C5, as the spec states it, fails. The table has no \<^verbatim>\<open>attempt_count\<close> column and no
  call of the task writes the status \<^verbatim>\<open>in_progress\<close>. For a task just submitted and
  run with two iterations of the loop, a Query in each state the run passes through
  returns status \<^verbatim>\<open>pending\<close> in the entry state and after each of the four calls of
  the loop, and \<^verbatim>\<open>completed\<close> after \<^verbatim>\<open>save_result\<close>, the state the run ends in.
\<close>

theorem query_during_run_counterexample:
  "process_task ''t1'' 1 (TaskData None) \<lparr>tasks = [], queue = [], backend = []\<rparr>
     = Inr (TaskResponse ''t1'' ''pending'' ''Task queued for processing'',
            \<lparr>tasks = [\<lparr>task_id = ''t1'', status = ''pending'', result = None,
                       error_message = None, created_at = Some 1, completed_at = None\<rparr>],
              queue = [Message ''t1'' None 0 0], backend = []\<rparr>)
   \<and> map (get_task_status ''t1'')
       (map tasks
          (states_of
             (task_calls
                \<lparr>request_retries = 0, computation_secs = 2, raised = None, utcnow = 9,
                  py_str = concat \<circ> map fst, py_hash = int \<circ> length\<rparr>
                ''t1'' None)
             \<lparr>tasks = [\<lparr>task_id = ''t1'', status = ''pending'', result = None,
                        error_message = None, created_at = Some 1, completed_at = None\<rparr>],
               queue = [], backend = []\<rparr>))
     = [Inr (TaskStatusResponse ''t1'' ''pending'' None None (Some (Isoformat 1)) None),
        Inr (TaskStatusResponse ''t1'' ''pending'' None None (Some (Isoformat 1)) None),
        Inr (TaskStatusResponse ''t1'' ''pending'' None None (Some (Isoformat 1)) None),
        Inr (TaskStatusResponse ''t1'' ''pending'' None None (Some (Isoformat 1)) None),
        Inr (TaskStatusResponse ''t1'' ''pending'' None None (Some (Isoformat 1)) None),
        Inr (TaskStatusResponse ''t1'' ''completed'' (Some 499999500000) None
               (Some (Isoformat 1)) (Some (Isoformat 9)))]
   \<and> last (states_of
             (task_calls
                \<lparr>request_retries = 0, computation_secs = 2, raised = None, utcnow = 9,
                  py_str = concat \<circ> map fst, py_hash = int \<circ> length\<rparr>
                ''t1'' None)
             \<lparr>tasks = [\<lparr>task_id = ''t1'', status = ''pending'', result = None,
                        error_message = None, created_at = Some 1, completed_at = None\<rparr>],
               queue = [], backend = []\<rparr>)
     = snd (heavy_computation_task
              \<lparr>request_retries = 0, computation_secs = 2, raised = None, utcnow = 9,
                py_str = concat \<circ> map fst, py_hash = int \<circ> length\<rparr>
              ''t1'' None
              \<lparr>tasks = [\<lparr>task_id = ''t1'', status = ''pending'', result = None,
                         error_message = None, created_at = Some 1, completed_at = None\<rparr>],
                queue = [], backend = []\<rparr>)"
proof -
  let ?env = "\<lparr>request_retries = 0, computation_secs = 2, raised = None, utcnow = 9,
                py_str = concat \<circ> map fst, py_hash = int \<circ> length\<rparr>"
  have calls: "task_calls ?env ''t1'' None =
      [Sleep, UpdateState 1, Sleep, UpdateState 2, SaveResult ''t1'' 499999500000 9]"
    by (simp add: task_calls_def workload_calls_def final_calls_def compute_result_falsy
          eval_nat_numeral)
  have sub: "process_task ''t1'' 1 (TaskData None) \<lparr>tasks = [], queue = [], backend = []\<rparr>
     = Inr (TaskResponse ''t1'' ''pending'' ''Task queued for processing'',
            \<lparr>tasks = [\<lparr>task_id = ''t1'', status = ''pending'', result = None,
                       error_message = None, created_at = Some 1, completed_at = None\<rparr>],
              queue = [Message ''t1'' None 0 0], backend = []\<rparr>)"
    by (simp add: process_task_def create_task_def delay_def Let_def)
  have q: "map (get_task_status ''t1'')
       (map tasks
          (states_of (task_calls ?env ''t1'' None)
             \<lparr>tasks = [\<lparr>task_id = ''t1'', status = ''pending'', result = None,
                        error_message = None, created_at = Some 1, completed_at = None\<rparr>],
               queue = [], backend = []\<rparr>))
     = [Inr (TaskStatusResponse ''t1'' ''pending'' None None (Some (Isoformat 1)) None),
        Inr (TaskStatusResponse ''t1'' ''pending'' None None (Some (Isoformat 1)) None),
        Inr (TaskStatusResponse ''t1'' ''pending'' None None (Some (Isoformat 1)) None),
        Inr (TaskStatusResponse ''t1'' ''pending'' None None (Some (Isoformat 1)) None),
        Inr (TaskStatusResponse ''t1'' ''pending'' None None (Some (Isoformat 1)) None),
        Inr (TaskStatusResponse ''t1'' ''completed'' (Some 499999500000) None
               (Some (Isoformat 1)) (Some (Isoformat 9)))]"
    unfolding calls
    by (simp add: save_result_def get_task_status_def get_task_def)
  have l: "last (states_of (task_calls ?env ''t1'' None)
             \<lparr>tasks = [\<lparr>task_id = ''t1'', status = ''pending'', result = None,
                        error_message = None, created_at = Some 1, completed_at = None\<rparr>],
               queue = [], backend = []\<rparr>)
     = snd (heavy_computation_task ?env ''t1'' None
              \<lparr>tasks = [\<lparr>task_id = ''t1'', status = ''pending'', result = None,
                         error_message = None, created_at = Some 1, completed_at = None\<rparr>],
                queue = [], backend = []\<rparr>)"
    by (rule last_states_of_task_calls)
  from sub q l show ?thesis by blast
qed

text \<open>
  C5, amended. For every task, a worker that executes it writes nothing to the table
  before its terminal write: in the state the run starts in and after every call of the
  workload, the table is the one the worker found, so a Query during execution returns
  what it returned before the run (status \<^verbatim>\<open>pending\<close> for a task just submitted). The
  next call is the terminal write, \<^verbatim>\<open>save_result\<close> or \<^verbatim>\<open>mark_task_failed\<close>, and from
  then to the end of the run the table is the one that single update leaves. No stored
  status is ever anything but pending, completed or failed. (The table has no
  \<^verbatim>\<open>attempt_count\<close>; the number of attempts is only the retry count of the queue's
  message.)
\<close>

theorem worker_writes_nothing_before_terminal_write:
  "map tasks (states_of (task_calls env tid d) s) =
     replicate (Suc (length (workload_calls env))) (tasks s)
     @ replicate (length (final_calls env tid d))
         (apply_op (case raised env of
                      None \<Rightarrow> Complete tid (compute_result env d) (utcnow env)
                    | Some (k, msg) \<Rightarrow> Fail tid msg (utcnow env)) (tasks s))
   \<and> map (get_task_status tid')
       (map tasks (take (Suc (length (workload_calls env)))
                     (states_of (task_calls env tid d) s)))
     = replicate (Suc (length (workload_calls env))) (get_task_status tid' (tasks s))
   \<and> hd (states_of (task_calls env tid d) s) = s
   \<and> last (states_of (task_calls env tid d) s) = snd (heavy_computation_task env tid d s)
   \<and> tasks (snd (heavy_computation_task env tid d s)) =
       apply_op (case raised env of
                   None \<Rightarrow> Complete tid (compute_result env d) (utcnow env)
                 | Some (k, msg) \<Rightarrow> Fail tid msg (utcnow env)) (tasks s)
   \<and> (\<forall>r \<in> set (run_ops ops []).
         status r = ''pending'' \<or> status r = ''completed'' \<or> status r = ''failed'')"
proof -
  let ?n = "length (workload_calls env)"
  let ?T = "apply_op (case raised env of
                      None \<Rightarrow> Complete tid (compute_result env d) (utcnow env)
                    | Some (k, msg) \<Rightarrow> Fail tid msg (utcnow env)) (tasks s)"
  have tables: "map tasks (states_of (task_calls env tid d) s) =
     replicate (Suc ?n) (tasks s) @ replicate (length (final_calls env tid d)) ?T"
    by (rule tasks_states_of_task_calls)
  have "map tasks (take (Suc ?n) (states_of (task_calls env tid d) s)) =
          take (Suc ?n) (map tasks (states_of (task_calls env tid d) s))"
    by (simp only: take_map)
  also have "\<dots> = replicate (Suc ?n) (tasks s)"
    by (simp only: tables) simp
  finally have during: "map (get_task_status tid')
       (map tasks (take (Suc ?n) (states_of (task_calls env tid d) s)))
     = replicate (Suc ?n) (get_task_status tid' (tasks s))"
    by (simp only: map_replicate)
  have first: "hd (states_of (task_calls env tid d) s) = s"
    by (rule hd_states_of)
  have final: "last (states_of (task_calls env tid d) s) = snd (heavy_computation_task env tid d s)"
    by (rule last_states_of_task_calls)
  have wr: "tasks (snd (heavy_computation_task env tid d s)) = ?T"
    by (simp add: tasks_heavy_computation_task split: option.splits)
  have "list_all row_ok (run_ops ops [])"
    by (rule row_ok_run_ops) simp
  then have st: "\<forall>r \<in> set (run_ops ops []).
         status r = ''pending'' \<or> status r = ''completed'' \<or> status r = ''failed''"
    unfolding list_all_iff row_ok_def by meson
  from tables during first final wr st show ?thesis by blast
qed

theorem worker_writes_nothing_before_terminal_write_witness:
  "map tasks
     (states_of
        (task_calls
           \<lparr>request_retries = 0, computation_secs = 1, raised = Some (1, ''boom''), utcnow = 9,
             py_str = concat \<circ> map fst, py_hash = int \<circ> length\<rparr>
           ''t1'' None)
        \<lparr>tasks = [\<lparr>task_id = ''t1'', status = ''pending'', result = None,
                   error_message = None, created_at = Some 1, completed_at = None\<rparr>],
          queue = [], backend = []\<rparr>)
     = [[\<lparr>task_id = ''t1'', status = ''pending'', result = None,
          error_message = None, created_at = Some 1, completed_at = None\<rparr>],
        [\<lparr>task_id = ''t1'', status = ''pending'', result = None,
          error_message = None, created_at = Some 1, completed_at = None\<rparr>],
        [\<lparr>task_id = ''t1'', status = ''pending'', result = None,
          error_message = None, created_at = Some 1, completed_at = None\<rparr>],
        [\<lparr>task_id = ''t1'', status = ''failed'', result = None,
          error_message = Some ''boom'', created_at = Some 1, completed_at = Some 9\<rparr>],
        [\<lparr>task_id = ''t1'', status = ''failed'', result = None,
          error_message = Some ''boom'', created_at = Some 1, completed_at = Some 9\<rparr>]]
   \<and> map status (run_ops [Create ''t1'' 1, Fail ''t1'' ''boom'' 10] []) = [''failed'']"
proof -
  let ?r = "\<lparr>task_id = ''t1'', status = ''pending'', result = None,
             error_message = None, created_at = Some 1, completed_at = None\<rparr>"
  let ?f = "\<lparr>task_id = ''t1'', status = ''failed'', result = None,
             error_message = Some ''boom'', created_at = Some 1, completed_at = Some 10\<rparr>"
  let ?s = "\<lparr>tasks = [?r], queue = [], backend = []\<rparr>"
  let ?env = "\<lparr>request_retries = 0, computation_secs = 1, raised = Some (1, ''boom''),
               utcnow = 9, py_str = concat \<circ> map fst, py_hash = int \<circ> length\<rparr>"
  have ops: "run_ops [Create ''t1'' 1, Fail ''t1'' ''boom'' 10] [] = [?f]"
    by (simp add: create_task_def mark_task_failed_def)
  have w: "length (workload_calls ?env) = 2"
    by (simp add: workload_calls_def)
  have f: "length (final_calls ?env ''t1'' None) = 2"
    by (simp add: final_calls_def)
  from worker_writes_nothing_before_terminal_write
         [of ?env "''t1''" None ?s "''t1''" "[Create ''t1'' 1, Fail ''t1'' ''boom'' 10]"]
       ops w f
  show ?thesis by (simp add: mark_task_failed_def eval_nat_numeral)
qed

section \<open>Failure and retry\<close>

text \<open>
  C2, as the spec states it, fails. The handler calls \<^verbatim>\<open>mark_task_failed\<close> before it
  asks for the retry, on every attempt. On the first attempt (no retry made yet, three
  left) an exception leaves the run with Celery's \<^verbatim>\<open>Retry\<close>, and a Query before the
  retry is delivered returns status \<^verbatim>\<open>failed\<close> with the error message.
\<close>

theorem failed_before_retry_counterexample:
  "fst (heavy_computation_task
     \<lparr>request_retries = 0, computation_secs = 5, raised = Some (2, ''boom''), utcnow = 9,
       py_str = concat \<circ> map fst, py_hash = int \<circ> length\<rparr>
     ''t1'' None
     \<lparr>tasks = [\<lparr>task_id = ''t1'', status = ''pending'', result = None,
                error_message = None, created_at = Some 1, completed_at = None\<rparr>],
       queue = [], backend = []\<rparr>) = RetryRaised ''boom'' 60
   \<and> get_task_status ''t1''
       (tasks (snd (heavy_computation_task
          \<lparr>request_retries = 0, computation_secs = 5, raised = Some (2, ''boom''), utcnow = 9,
            py_str = concat \<circ> map fst, py_hash = int \<circ> length\<rparr>
          ''t1'' None
          \<lparr>tasks = [\<lparr>task_id = ''t1'', status = ''pending'', result = None,
                     error_message = None, created_at = Some 1, completed_at = None\<rparr>],
            queue = [], backend = []\<rparr>)))
     = Inr (TaskStatusResponse ''t1'' ''failed'' None (Some ''boom'')
              (Some (Isoformat 1)) (Some (Isoformat 9)))"
  by (simp add: heavy_computation_task_def retry_def Let_def tasks_progress_loop
        mark_task_failed_def get_task_status_def get_task_def)

text \<open>
  C2, amended. For every task whose execution raises an error, the store records the
  task as failed, with the error message and the completion time, at once and on every
  failing attempt, also while retry attempts remain (then the run ends with \<^verbatim>\<open>Retry\<close>):
  a Query issued between a failure and its retry observes status \<^verbatim>\<open>failed\<close>.
\<close>

theorem failed_recorded_on_every_failing_attempt:
  assumes "raised env = Some (k, msg)" and "get_task tid (tasks s) = Some r"
  shows "get_task_status tid (tasks (snd (heavy_computation_task env tid d s))) =
           Inr (TaskStatusResponse tid ''failed'' (result r) (Some msg)
                  (case created_at r of None \<Rightarrow> None | Some t \<Rightarrow> Some (Isoformat t))
                  (Some (Isoformat (utcnow env))))
       \<and> (request_retries env < 3 \<longrightarrow>
            fst (heavy_computation_task env tid d s) = RetryRaised msg 60)"
proof -
  have t: "tasks (snd (heavy_computation_task env tid d s)) =
             mark_task_failed tid msg (utcnow env) (tasks s)"
    using assms(1) by (simp add: tasks_heavy_computation_task)
  have key: "task_id r = tid"
    using assms(2) get_task_in_set by blast
  have q: "get_task_status tid (tasks (snd (heavy_computation_task env tid d s))) =
           Inr (TaskStatusResponse tid ''failed'' (result r) (Some msg)
                  (case created_at r of None \<Rightarrow> None | Some t \<Rightarrow> Some (Isoformat t))
                  (Some (Isoformat (utcnow env))))"
    using assms(2) key
    by (simp add: t get_task_status_def get_task_mark_failed_same)
  have o: "request_retries env < 3 \<Longrightarrow>
            fst (heavy_computation_task env tid d s) = RetryRaised msg 60"
    using assms(1) by (simp add: heavy_computation_task_def retry_def Let_def)
  from q o show ?thesis by blast
qed

theorem failed_recorded_on_every_failing_attempt_witness:
  "get_task_status ''t1''
       (tasks (snd (heavy_computation_task
          \<lparr>request_retries = 1, computation_secs = 5, raised = Some (7, ''boom''), utcnow = 9,
            py_str = concat \<circ> map fst, py_hash = int \<circ> length\<rparr>
          ''t1'' None
          \<lparr>tasks = [\<lparr>task_id = ''t1'', status = ''pending'', result = None,
                     error_message = None, created_at = Some 1, completed_at = None\<rparr>],
            queue = [], backend = []\<rparr>)))
     = Inr (TaskStatusResponse ''t1'' ''failed'' None (Some ''boom'')
              (Some (Isoformat 1)) (Some (Isoformat 9)))
   \<and> fst (heavy_computation_task
          \<lparr>request_retries = 1, computation_secs = 5, raised = Some (7, ''boom''), utcnow = 9,
            py_str = concat \<circ> map fst, py_hash = int \<circ> length\<rparr>
          ''t1'' None
          \<lparr>tasks = [\<lparr>task_id = ''t1'', status = ''pending'', result = None,
                     error_message = None, created_at = Some 1, completed_at = None\<rparr>],
            queue = [], backend = []\<rparr>) = RetryRaised ''boom'' 60"
proof -
  let ?env = "\<lparr>request_retries = 1, computation_secs = 5, raised = Some (7, ''boom''),
               utcnow = 9, py_str = concat \<circ> map fst, py_hash = int \<circ> length\<rparr>"
  let ?r = "\<lparr>task_id = ''t1'', status = ''pending'', result = None,
             error_message = None, created_at = Some 1, completed_at = None\<rparr>"
  let ?s = "\<lparr>tasks = [?r], queue = [], backend = []\<rparr>"
  have e: "raised ?env = Some (7, ''boom'')" by simp
  have h: "get_task ''t1'' (tasks ?s) = Some ?r" by (simp add: get_task_def)
  have n: "request_retries ?env < 3" by simp
  from failed_recorded_on_every_failing_attempt [OF e h, of None] n
  show ?thesis by simp
qed

text \<open>
  C8, as the spec states it, fails in its second half. On the second attempt (one retry
  made, the maximum of 3 not exceeded) an exception after the loop rewrites the record
  as failed with the new error, and the message is queued again with retry count 2 and
  countdown 60.
\<close>

theorem failed_written_with_retries_left_counterexample:
  "heavy_computation_task
     \<lparr>request_retries = 1, computation_secs = 6, raised = Some (6, ''db down''), utcnow = 70,
       py_str = concat \<circ> map fst, py_hash = int \<circ> length\<rparr>
     ''t1'' (Some [(''x'', JInt 1)])
     \<lparr>tasks = [\<lparr>task_id = ''t1'', status = ''failed'', result = None,
                error_message = Some ''boom'', created_at = Some 1, completed_at = Some 9\<rparr>],
       queue = [], backend = []\<rparr>
   = (RetryRaised ''db down'' 60,
      \<lparr>tasks = [\<lparr>task_id = ''t1'', status = ''failed'', result = None,
                 error_message = Some ''db down'', created_at = Some 1,
                 completed_at = Some 70\<rparr>],
        queue = [Message ''t1'' (Some [(''x'', JInt 1)]) 2 60],
        backend = [(''PROGRESS'', 1), (''PROGRESS'', 2), (''PROGRESS'', 3),
                   (''PROGRESS'', 4), (''PROGRESS'', 5), (''PROGRESS'', 6)]\<rparr>)"
  by (simp add: heavy_computation_task_def retry_def Let_def mark_task_failed_def eval_nat_numeral)

text \<open>
  C8, amended. For every execution failure, the task is first recorded as failed with
  the error message, on every attempt; then the retry policy applies, with a fixed
  countdown of 60 and \<^verbatim>\<open>max_retries\<close> of 3: while fewer than 3 retries have been made
  the message is queued again with the retry count incremented and the run ends with
  \<^verbatim>\<open>Retry\<close>; once 3 retries have been made nothing is queued and the exception
  propagates, so the record stays failed with the last error recorded.
\<close>

theorem retry_policy_of_failing_run:
  assumes "raised env = Some (k, msg)"
  shows "tasks (snd (heavy_computation_task env tid d s)) =
           mark_task_failed tid msg (utcnow env) (tasks s)
       \<and> (request_retries env < 3 \<longrightarrow>
            fst (heavy_computation_task env tid d s) = RetryRaised msg 60
          \<and> queue (snd (heavy_computation_task env tid d s)) =
              queue s @ [Message tid d (request_retries env + 1) 60])
       \<and> (3 \<le> request_retries env \<longrightarrow>
            fst (heavy_computation_task env tid d s) = ExcRaised msg
          \<and> queue (snd (heavy_computation_task env tid d s)) = queue s)"
proof -
  have wr: "tasks (snd (heavy_computation_task env tid d s)) =
           mark_task_failed tid msg (utcnow env) (tasks s)"
    using assms by (simp add: tasks_heavy_computation_task)
  have again: "request_retries env < 3 \<Longrightarrow>
            fst (heavy_computation_task env tid d s) = RetryRaised msg 60
          \<and> queue (snd (heavy_computation_task env tid d s)) =
              queue s @ [Message tid d (request_retries env + 1) 60]"
    using assms
    by (simp add: heavy_computation_task_def retry_def Let_def queue_progress_loop)
  have stop: "3 \<le> request_retries env \<Longrightarrow>
            fst (heavy_computation_task env tid d s) = ExcRaised msg
          \<and> queue (snd (heavy_computation_task env tid d s)) = queue s"
    using assms
    by (simp add: heavy_computation_task_def retry_def Let_def queue_progress_loop)
  from wr again stop show ?thesis by blast
qed

theorem retry_policy_of_failing_run_witness:
  "fst (heavy_computation_task
     \<lparr>request_retries = 0, computation_secs = 5, raised = Some (0, ''boom''), utcnow = 9,
       py_str = concat \<circ> map fst, py_hash = int \<circ> length\<rparr>
     ''t1'' None
     \<lparr>tasks = [\<lparr>task_id = ''t1'', status = ''pending'', result = None,
                error_message = None, created_at = Some 1, completed_at = None\<rparr>],
       queue = [], backend = []\<rparr>) = RetryRaised ''boom'' 60
   \<and> queue (snd (heavy_computation_task
     \<lparr>request_retries = 0, computation_secs = 5, raised = Some (0, ''boom''), utcnow = 9,
       py_str = concat \<circ> map fst, py_hash = int \<circ> length\<rparr>
     ''t1'' None
     \<lparr>tasks = [\<lparr>task_id = ''t1'', status = ''pending'', result = None,
                error_message = None, created_at = Some 1, completed_at = None\<rparr>],
       queue = [], backend = []\<rparr>)) = [Message ''t1'' None 1 60]
   \<and> fst (heavy_computation_task
     \<lparr>request_retries = 3, computation_secs = 5, raised = Some (0, ''boom''), utcnow = 200,
       py_str = concat \<circ> map fst, py_hash = int \<circ> length\<rparr>
     ''t1'' None
     \<lparr>tasks = [\<lparr>task_id = ''t1'', status = ''failed'', result = None,
                error_message = Some ''boom'', created_at = Some 1, completed_at = Some 130\<rparr>],
       queue = [], backend = []\<rparr>) = ExcRaised ''boom''
   \<and> snd (heavy_computation_task
     \<lparr>request_retries = 3, computation_secs = 5, raised = Some (0, ''boom''), utcnow = 200,
       py_str = concat \<circ> map fst, py_hash = int \<circ> length\<rparr>
     ''t1'' None
     \<lparr>tasks = [\<lparr>task_id = ''t1'', status = ''failed'', result = None,
                error_message = Some ''boom'', created_at = Some 1, completed_at = Some 130\<rparr>],
       queue = [], backend = []\<rparr>)
     = \<lparr>tasks = [\<lparr>task_id = ''t1'', status = ''failed'', result = None,
                  error_message = Some ''boom'', created_at = Some 1,
                  completed_at = Some 200\<rparr>],
         queue = [], backend = []\<rparr>"
proof -
  let ?e0 = "\<lparr>request_retries = 0, computation_secs = 5, raised = Some (0, ''boom''),
              utcnow = 9, py_str = concat \<circ> map fst, py_hash = int \<circ> length\<rparr>"
  let ?e3 = "\<lparr>request_retries = 3, computation_secs = 5, raised = Some (0, ''boom''),
              utcnow = 200, py_str = concat \<circ> map fst, py_hash = int \<circ> length\<rparr>"
  let ?s0 = "\<lparr>tasks = [\<lparr>task_id = ''t1'', status = ''pending'', result = None,
                error_message = None, created_at = Some 1, completed_at = None\<rparr>],
       queue = [], backend = []\<rparr>"
  let ?s3 = "\<lparr>tasks = [\<lparr>task_id = ''t1'', status = ''failed'', result = None,
                error_message = Some ''boom'', created_at = Some 1, completed_at = Some 130\<rparr>],
       queue = [], backend = []\<rparr>"
  have a: "raised ?e0 = Some (0, ''boom'')" by simp
  have b: "raised ?e3 = Some (0, ''boom'')" by simp
  have a': "request_retries ?e0 < 3" by simp
  have b': "3 \<le> request_retries ?e3" by simp
  have whole: "snd (heavy_computation_task ?e3 ''t1'' None ?s3)
     = \<lparr>tasks = mark_task_failed ''t1'' ''boom'' 200 (tasks ?s3), queue = [], backend = []\<rparr>"
    by (simp add: heavy_computation_task_def retry_def Let_def)
  from retry_policy_of_failing_run [OF a, of "''t1''" None ?s0] a'
       retry_policy_of_failing_run [OF b, of "''t1''" None ?s3] b' whole
  show ?thesis by (simp add: mark_task_failed_def)
qed

section \<open>Submit and Query\<close>

text \<open>
  C6. For every Submit call whose \<^verbatim>\<open>uuid4\<close> is fresh (no record has it as key), the
  record with status \<^verbatim>\<open>pending\<close> is in the store and the task is on the queue in the
  state that \<^verbatim>\<open>process_task\<close> returns together with its response; the response
  carries that task id, status \<^verbatim>\<open>pending\<close> and the message; and a Query for the id on
  that store, before any worker has run, returns status \<^verbatim>\<open>pending\<close>.
\<close>

theorem submit_creates_pending_record:
  assumes "get_task uuid (tasks s) = None"
  shows "process_task uuid now td s =
           Inr (TaskResponse uuid ''pending'' ''Task queued for processing'',
                s\<lparr>tasks := tasks s @ [\<lparr>task_id = uuid, status = ''pending'', result = None,
                                        error_message = None, created_at = Some now,
                                        completed_at = None\<rparr>],
                  queue := queue s @ [Message uuid (data td) 0 0]\<rparr>)
       \<and> get_task_status uuid
           (tasks s @ [\<lparr>task_id = uuid, status = ''pending'', result = None,
                        error_message = None, created_at = Some now, completed_at = None\<rparr>])
         = Inr (TaskStatusResponse uuid ''pending'' None None (Some (Isoformat now)) None)"
proof -
  have fresh: "uuid \<notin> set (map task_id (tasks s))"
    using assms by (simp add: get_task_None_iff)
  have p: "process_task uuid now td s =
           Inr (TaskResponse uuid ''pending'' ''Task queued for processing'',
                s\<lparr>tasks := tasks s @ [\<lparr>task_id = uuid, status = ''pending'', result = None,
                                        error_message = None, created_at = Some now,
                                        completed_at = None\<rparr>],
                  queue := queue s @ [Message uuid (data td) 0 0]\<rparr>)"
    using fresh by (simp add: process_task_def create_task_def delay_def Let_def)
  have q: "get_task_status uuid
           (tasks s @ [\<lparr>task_id = uuid, status = ''pending'', result = None,
                        error_message = None, created_at = Some now, completed_at = None\<rparr>])
         = Inr (TaskStatusResponse uuid ''pending'' None None (Some (Isoformat now)) None)"
    using assms by (simp add: get_task_status_def get_task_append_fresh)
  from p q show ?thesis by blast
qed

theorem submit_creates_pending_record_witness:
  "process_task ''t2'' 5 (TaskData (Some [(''x'', JInt 1)]))
     \<lparr>tasks = [\<lparr>task_id = ''t1'', status = ''completed'', result = Some 7,
                error_message = None, created_at = Some 1, completed_at = Some 3\<rparr>],
       queue = [], backend = []\<rparr>
   = Inr (TaskResponse ''t2'' ''pending'' ''Task queued for processing'',
          \<lparr>tasks = [\<lparr>task_id = ''t1'', status = ''completed'', result = Some 7,
                     error_message = None, created_at = Some 1, completed_at = Some 3\<rparr>,
                    \<lparr>task_id = ''t2'', status = ''pending'', result = None,
                     error_message = None, created_at = Some 5, completed_at = None\<rparr>],
            queue = [Message ''t2'' (Some [(''x'', JInt 1)]) 0 0], backend = []\<rparr>)
   \<and> get_task_status ''t2''
        [\<lparr>task_id = ''t1'', status = ''completed'', result = Some 7,
          error_message = None, created_at = Some 1, completed_at = Some 3\<rparr>,
         \<lparr>task_id = ''t2'', status = ''pending'', result = None,
          error_message = None, created_at = Some 5, completed_at = None\<rparr>]
     = Inr (TaskStatusResponse ''t2'' ''pending'' None None (Some (Isoformat 5)) None)"
proof -
  let ?s = "\<lparr>tasks = [\<lparr>task_id = ''t1'', status = ''completed'', result = Some 7,
                error_message = None, created_at = Some 1, completed_at = Some 3\<rparr>],
       queue = [], backend = []\<rparr>"
  have h: "get_task ''t2'' (tasks ?s) = None" by (simp add: get_task_def)
  from submit_creates_pending_record [OF h, of 5 "TaskData (Some [(''x'', JInt 1)])"]
  show ?thesis by simp
qed

text \<open>
  C7. For every task id with no record in the store, Query raises the 404 with detail
  \<^verbatim>\<open>Task not found\<close>; for every id with a record, it returns the response built from
  the stored status, result, error message and the two timestamps. An id that is a key
  has a record and, under the primary key, each stored row is the record of its id.
\<close>

theorem query_not_found_or_record:
  "(tid \<notin> set (map task_id tbl) \<longrightarrow>
      get_task_status tid tbl = Inl (HTTPException 404 ''Task not found''))
   \<and> (\<forall>r. get_task tid tbl = Some r \<longrightarrow>
        get_task_status tid tbl =
          Inr (TaskStatusResponse tid (status r) (result r) (error_message r)
                 (case created_at r of None \<Rightarrow> None | Some t \<Rightarrow> Some (Isoformat t))
                 (case completed_at r of None \<Rightarrow> None | Some t \<Rightarrow> Some (Isoformat t))))
   \<and> (tid \<in> set (map task_id tbl) \<longrightarrow> get_task tid tbl \<noteq> None)
   \<and> (\<forall>r. distinct (map task_id tbl) \<and> r \<in> set tbl \<longrightarrow> get_task (task_id r) tbl = Some r)"
proof -
  have nf: "tid \<notin> set (map task_id tbl) \<longrightarrow>
      get_task_status tid tbl = Inl (HTTPException 404 ''Task not found'')"
  proof
    assume "tid \<notin> set (map task_id tbl)"
    then have "get_task tid tbl = None" using get_task_None_iff by blast
    then show "get_task_status tid tbl = Inl (HTTPException 404 ''Task not found'')"
      by (simp add: get_task_status_def)
  qed
  have found: "\<forall>r. get_task tid tbl = Some r \<longrightarrow>
        get_task_status tid tbl =
          Inr (TaskStatusResponse tid (status r) (result r) (error_message r)
                 (case created_at r of None \<Rightarrow> None | Some t \<Rightarrow> Some (Isoformat t))
                 (case completed_at r of None \<Rightarrow> None | Some t \<Rightarrow> Some (Isoformat t)))"
    using get_task_in_set [of tid tbl] by (simp add: get_task_status_def)
  have ex: "tid \<in> set (map task_id tbl) \<longrightarrow> get_task tid tbl \<noteq> None"
    using get_task_None_iff [of tid tbl] by blast
  have first: "\<forall>r. distinct (map task_id tbl) \<and> r \<in> set tbl \<longrightarrow> get_task (task_id r) tbl = Some r"
    using get_task_distinct by blast
  from nf found ex first show ?thesis by blast
qed

theorem query_not_found_or_record_witness:
  "get_task_status ''t9''
      [\<lparr>task_id = ''t1'', status = ''completed'', result = Some 7,
        error_message = None, created_at = Some 1, completed_at = Some 3\<rparr>]
     = Inl (HTTPException 404 ''Task not found'')
   \<and> get_task_status ''t1''
      [\<lparr>task_id = ''t1'', status = ''completed'', result = Some 7,
        error_message = None, created_at = Some 1, completed_at = Some 3\<rparr>]
     = Inr (TaskStatusResponse ''t1'' ''completed'' (Some 7) None
              (Some (Isoformat 1)) (Some (Isoformat 3)))
   \<and> get_task ''t1''
      [\<lparr>task_id = ''t1'', status = ''completed'', result = Some 7,
        error_message = None, created_at = Some 1, completed_at = Some 3\<rparr>]
     = Some \<lparr>task_id = ''t1'', status = ''completed'', result = Some 7,
             error_message = None, created_at = Some 1, completed_at = Some 3\<rparr>"
proof -
  let ?r = "\<lparr>task_id = ''t1'', status = ''completed'', result = Some 7,
        error_message = None, created_at = Some 1, completed_at = Some 3\<rparr>"
  have a: "''t9'' \<notin> set (map task_id [?r])" by simp
  have b: "get_task ''t1'' [?r] = Some ?r" by (simp add: get_task_def)
  have c: "distinct (map task_id [?r]) \<and> ?r \<in> set [?r]" by simp
  from query_not_found_or_record [of "''t9''" "[?r]"] a
       query_not_found_or_record [of "''t1''" "[?r]"] b c
  show ?thesis by simp
qed

end
